theory Spec2Isabelle
  imports Main "HOL-Library.Word"
begin

section \<open>Values\<close>

text \<open>
  The module \<^verbatim>\<open>api/codeforces_api.py\<close> is embedded function by function.
  Python strings are modelled by \<^typ>\<open>string\<close>, one \<^typ>\<open>char\<close> standing for one
  character of the Python string.
\<close>

text \<open>\<^verbatim>\<open>class CodeforcesLanguage(Enum)\<close>: two members, with the values \<^verbatim>\<open>'en'\<close> and \<^verbatim>\<open>'ru'\<close>.\<close>

datatype CodeforcesLanguage = en | ru

text \<open>
  The values a caller hands to the client as arguments: \<^verbatim>\<open>None\<close>, booleans, integers
  (unbounded), strings, lists and members of the language enumeration.
\<close>

datatype pyval =
    PNone
  | PBool bool
  | PInt int
  | PStr string
  | PList "pyval list"
  | PLang CodeforcesLanguage

text \<open>
  What \<^verbatim>\<open>json.loads\<close> returns: \<^verbatim>\<open>None\<close>, a boolean, an integer, a float (kept as its 64
  bits, no arithmetic is ever done on it), a string, a list, or a dict. A dict is an
  association list in the dict's iteration order; its keys are distinct.
\<close>

datatype json =
    JNull
  | JBool bool
  | JInt int
  | JFloat "64 word"
  | JStr string
  | JList "json list"
  | JDict "(string \<times> json) list"

text \<open>
  The exceptions the module can raise, with their arguments (\<^verbatim>\<open>e.args\<close>).
  \<^item> \<open>AssertionError args\<close>: a failed \<^verbatim>\<open>assert\<close>; \<open>args\<close> is empty for an assert
    without a message. Assertions are taken to be enabled.
  \<^item> \<open>ValueError args\<close>: raised by \<^verbatim>\<open>__check_json\<close>.
  \<^item> \<open>InvalidEnumValue v\<close>: the \<^verbatim>\<open>ValueError\<close> that the lookup \<^verbatim>\<open>CodeforcesLanguage(v)\<close>
    raises when no member has the value \<open>v\<close>.
  \<^item> \<open>KeyError k\<close>: subscripting a dict with a key \<open>k\<close> it does not hold.
  \<^item> \<open>TypeError\<close>: an operation on a value of the wrong type (\<^verbatim>\<open>len(None)\<close>,
    subscripting a list with a string, joining non-strings, iterating a number).
  \<^item> \<open>LibraryError msg\<close>: anything else that the HTTP or JSON library raises.
\<close>

datatype pyerror =
    AssertionError "string list"
  | ValueError "json list"
  | InvalidEnumValue pyval
  | KeyError string
  | TypeError
  | LibraryError string

text \<open>Sequencing of computations that may raise: the first exception ends the computation.\<close>

definition and_then :: "pyerror + 'a \<Rightarrow> ('a \<Rightarrow> pyerror + 'b) \<Rightarrow> pyerror + 'b" where
  "and_then r f = (case r of Inl e \<Rightarrow> Inl e | Inr x \<Rightarrow> f x)"

text \<open>\<^verbatim>\<open>list(map(f, xs))\<close> for an \<open>f\<close> that may raise: elements are visited from left to right.\<close>

fun map_err :: "('a \<Rightarrow> pyerror + 'b) \<Rightarrow> 'a list \<Rightarrow> pyerror + 'b list" where
  "map_err f [] = Inr []"
| "map_err f (x # xs) =
     (case f x of
        Inl e \<Rightarrow> Inl e
      | Inr y \<Rightarrow> (case map_err f xs of Inl e \<Rightarrow> Inl e | Inr ys \<Rightarrow> Inr (y # ys)))"

section \<open>Python built-ins used by the module\<close>

text \<open>\<^verbatim>\<open>isinstance(v, int)\<close>: \<^verbatim>\<open>bool\<close> is a subclass of \<^verbatim>\<open>int\<close> in Python.\<close>

fun isinstance_int :: "pyval \<Rightarrow> bool" where
  "isinstance_int (PInt i) = True"
| "isinstance_int (PBool b) = True"
| "isinstance_int v = False"

fun isinstance_bool :: "pyval \<Rightarrow> bool" where
  "isinstance_bool (PBool b) = True"
| "isinstance_bool v = False"

fun isinstance_str :: "pyval \<Rightarrow> bool" where
  "isinstance_str (PStr s) = True"
| "isinstance_str v = False"

fun isinstance_list :: "pyval \<Rightarrow> bool" where
  "isinstance_list (PList xs) = True"
| "isinstance_list v = False"

fun isinstance_CodeforcesLanguage :: "pyval \<Rightarrow> bool" where
  "isinstance_CodeforcesLanguage (PLang l) = True"
| "isinstance_CodeforcesLanguage v = False"

text \<open>The integer an \<^verbatim>\<open>int\<close> instance stands for in a comparison (\<^verbatim>\<open>True\<close> is 1).\<close>

fun int_value :: "pyval \<Rightarrow> int" where
  "int_value (PInt i) = i"
| "int_value (PBool b) = (if b then 1 else 0)"
| "int_value v = 0"

text \<open>\<^verbatim>\<open>len(v)\<close>: defined on strings and lists, a \<^verbatim>\<open>TypeError\<close> on every other value here.\<close>

fun py_len :: "pyval \<Rightarrow> pyerror + nat" where
  "py_len (PList xs) = Inr (length xs)"
| "py_len (PStr s) = Inr (length s)"
| "py_len v = Inl TypeError"

text \<open>\<^verbatim>\<open>str(n)\<close> for an integer: its decimal digits, with a minus sign when negative.\<close>

definition digit :: "nat \<Rightarrow> char" where
  "digit d = ''0123456789'' ! (d mod 10)"

function str_nat :: "nat \<Rightarrow> string" where
  "str_nat n = (if n < 10 then [digit n] else str_nat (n div 10) @ [digit (n mod 10)])"
  by pat_completeness auto
termination
  by (relation "measure id") auto

declare str_nat.simps [simp del]

definition str_int :: "int \<Rightarrow> string" where
  "str_int i = (if i < 0 then ''-'' @ str_nat (nat (- i)) else str_nat (nat i))"

text \<open>\<^verbatim>\<open>str(member)\<close> for a member of the enumeration.\<close>

fun lang_str :: "CodeforcesLanguage \<Rightarrow> string" where
  "lang_str en = ''CodeforcesLanguage.en''"
| "lang_str ru = ''CodeforcesLanguage.ru''"

text \<open>
  \<^verbatim>\<open>str(v)\<close> on the values that are not lists. The module calls \<^verbatim>\<open>str\<close> only in the branch
  of \<^verbatim>\<open>__key_value_to_http_parameter\<close> that lists do not reach.
\<close>

fun py_str :: "pyval \<Rightarrow> string" where
  "py_str PNone = ''None''"
| "py_str (PBool b) = (if b then ''True'' else ''False'')"
| "py_str (PInt i) = str_int i"
| "py_str (PStr s) = s"
| "py_str (PLang l) = lang_str l"

text \<open>\<^verbatim>\<open>sep.join(xs)\<close> on a list of strings.\<close>

fun join :: "string \<Rightarrow> string list \<Rightarrow> string" where
  "join sep [] = []"
| "join sep [x] = x"
| "join sep (x # y # ys) = x @ sep @ join sep (y # ys)"

text \<open>\<^verbatim>\<open>str.join\<close> raises a \<^verbatim>\<open>TypeError\<close> at the first item that is not a string.\<close>

fun str_item :: "pyval \<Rightarrow> pyerror + string" where
  "str_item (PStr s) = Inr s"
| "str_item v = Inl TypeError"

definition py_join :: "string \<Rightarrow> pyval list \<Rightarrow> pyerror + string" where
  "py_join sep xs = and_then (map_err str_item xs) (\<lambda>ss. Inr (join sep ss))"

text \<open>\<^verbatim>\<open>'{}'.format(type(v))\<close>, the text the assertion messages end with.\<close>

definition quoted :: "string \<Rightarrow> string" where
  "quoted s = [CHR 0x27] @ s @ [CHR 0x27]"

fun type_repr :: "pyval \<Rightarrow> string" where
  "type_repr PNone = ''<class '' @ quoted ''NoneType'' @ ''>''"
| "type_repr (PBool b) = ''<class '' @ quoted ''bool'' @ ''>''"
| "type_repr (PInt i) = ''<class '' @ quoted ''int'' @ ''>''"
| "type_repr (PStr s) = ''<class '' @ quoted ''str'' @ ''>''"
| "type_repr (PList xs) = ''<class '' @ quoted ''list'' @ ''>''"
| "type_repr (PLang l) = ''<enum '' @ quoted ''CodeforcesLanguage'' @ ''>''"

text \<open>\<^verbatim>\<open>d[key]\<close> on a value returned by \<^verbatim>\<open>json.loads\<close>, for a string \<open>key\<close>.\<close>

fun getitem :: "json \<Rightarrow> string \<Rightarrow> pyerror + json" where
  "getitem (JDict d) key = (case map_of d key of None \<Rightarrow> Inl (KeyError key) | Some v \<Rightarrow> Inr v)"
| "getitem v key = Inl TypeError"

text \<open>
  The elements that iterating a JSON value yields: the items of a list, the keys of a
  dict, the one-character strings of a string; a \<^verbatim>\<open>TypeError\<close> for the other values.
\<close>

fun py_iter :: "json \<Rightarrow> pyerror + json list" where
  "py_iter (JList xs) = Inr xs"
| "py_iter (JDict d) = Inr (map (\<lambda>kv. JStr (fst kv)) d)"
| "py_iter (JStr s) = Inr (map (\<lambda>c. JStr [c]) s)"
| "py_iter v = Inl TypeError"

section \<open>The environment\<close>

text \<open>
  The classes \<^verbatim>\<open>Problem\<close>, \<^verbatim>\<open>RanklistRow\<close>, \<^verbatim>\<open>RatingChange\<close>, \<^verbatim>\<open>Hack\<close>, \<^verbatim>\<open>User\<close>,
  \<^verbatim>\<open>ProblemStatistics\<close>, \<^verbatim>\<open>Contest\<close> and \<^verbatim>\<open>Submission\<close> are imported from the package
  \<^verbatim>\<open>api\<close>; their constructors are a parameter of the model, as are the HTTP library
  and the JSON parser.
\<close>

datatype api_class =
  Problem | RanklistRow | RatingChange | Hack | User | ProblemStatistics | Contest | Submission

text \<open>
  \<^item> \<open>urlopen url\<close>: \<^verbatim>\<open>request.urlopen(url)\<close>, then \<^verbatim>\<open>readall().decode('utf-8')\<close>: the body
    as text, or the exception raised on the way.
  \<^item> \<open>json_loads text\<close>: \<^verbatim>\<open>json.loads(text)\<close>.
  \<^item> \<open>construct c v\<close>: calling the class \<open>c\<close> on the value \<open>v\<close>.
\<close>

record 'o env =
  urlopen :: "string \<Rightarrow> pyerror + string"
  json_loads :: "string \<Rightarrow> pyerror + json"
  construct :: "api_class \<Rightarrow> json \<Rightarrow> pyerror + 'o"

section \<open>CodeforcesDataRetriever\<close>

text \<open>The two attributes \<^verbatim>\<open>_base_from_language\<close> and \<^verbatim>\<open>_language\<close> of a retriever.\<close>

record CodeforcesDataRetriever =
  base_from_language :: "(CodeforcesLanguage \<times> string) list"
  language :: CodeforcesLanguage

text \<open>
  \<^verbatim>\<open>CodeforcesLanguage(v)\<close>: a member is returned as it is, a string that is the value
  of a member gives that member, anything else raises.
\<close>

fun CodeforcesLanguage_call :: "pyval \<Rightarrow> pyerror + CodeforcesLanguage" where
  "CodeforcesLanguage_call (PLang l) = Inr l"
| "CodeforcesLanguage_call (PStr s) =
     (if s = ''en'' then Inr en else if s = ''ru'' then Inr ru
      else Inl (InvalidEnumValue (PStr s)))"
| "CodeforcesLanguage_call v = Inl (InvalidEnumValue v)"

definition base_table :: "(CodeforcesLanguage \<times> string) list" where
  "base_table = [(en, ''http://codeforces.com/api/''), (ru, ''http://codeforces.ru/api/'')]"

text \<open>\<^verbatim>\<open>CodeforcesDataRetriever.__init__\<close>\<close>

fun CodeforcesDataRetriever_init :: "pyval \<Rightarrow> pyerror + CodeforcesDataRetriever" where
  "CodeforcesDataRetriever_init (PLang l) =
     Inr \<lparr>base_from_language = base_table, language = l\<rparr>"
| "CodeforcesDataRetriever_init v =
     Inl (AssertionError [''lang should be of type CodeforcesLanguage, not '' @ type_repr v])"

text \<open>The property \<^verbatim>\<open>base\<close>: \<^verbatim>\<open>self._base_from_language[self.language]\<close>.\<close>

definition base :: "CodeforcesDataRetriever \<Rightarrow> pyerror + string" where
  "base r = (case map_of (base_from_language r) (language r) of
               None \<Rightarrow> Inl (KeyError (lang_str (language r)))
             | Some b \<Rightarrow> Inr b)"

text \<open>
  The setter of the property \<^verbatim>\<open>language\<close>. It returns the retriever after the call,
  also when it raises.
\<close>

definition language_setter ::
  "pyval \<Rightarrow> CodeforcesDataRetriever \<Rightarrow> (pyerror + unit) \<times> CodeforcesDataRetriever" where
  "language_setter v r =
     (if \<not> (isinstance_CodeforcesLanguage v \<or> isinstance_str v) then (Inl (AssertionError []), r)
      else case CodeforcesLanguage_call v of
             Inl e \<Rightarrow> (Inl e, r)
           | Inr l \<Rightarrow> (Inr (), r\<lparr>language := l\<rparr>))"

text \<open>\<^verbatim>\<open>__get_valid_args\<close>: the entries whose value is not \<^verbatim>\<open>None\<close>, in the dict's order.\<close>

definition get_valid_args :: "(string \<times> pyval) list \<Rightarrow> (string \<times> pyval) list" where
  "get_valid_args kwargs = filter (\<lambda>kv. snd kv \<noteq> PNone) kwargs"

text \<open>\<^verbatim>\<open>__key_value_to_http_parameter\<close>\<close>

fun key_value_to_http_parameter :: "string \<times> pyval \<Rightarrow> pyerror + string" where
  "key_value_to_http_parameter (key, PList xs) =
     and_then (py_join '';'' xs) (\<lambda>v. Inr (key @ ''='' @ v))"
| "key_value_to_http_parameter (key, v) = Inr (key @ ''='' @ py_str v)"

text \<open>
  \<^verbatim>\<open>__generate_url\<close>. The keyword arguments are an association list with distinct keys, in
  the order in which the call names them.
\<close>

definition generate_url ::
  "CodeforcesDataRetriever \<Rightarrow> string \<Rightarrow> (string \<times> pyval) list \<Rightarrow> pyerror + string" where
  "generate_url r method kwargs =
     and_then (base r) (\<lambda>b.
       let url = b @ method in
       if kwargs \<noteq> [] then
         and_then (map_err key_value_to_http_parameter (get_valid_args kwargs))
           (\<lambda>ps. Inr (url @ ''?'' @ join ''&'' ps))
       else Inr url)"

text \<open>\<^verbatim>\<open>__check_json\<close>: the \<^verbatim>\<open>try\<close> block, on the parsed value.\<close>

definition check_values :: "json \<Rightarrow> pyerror + json" where
  "check_values values =
     (case getitem values ''status'' of
        Inl (KeyError k) \<Rightarrow> Inl (ValueError [JStr ''Missed required field'', JStr k])
      | Inl e \<Rightarrow> Inl e
      | Inr status \<Rightarrow>
          if status = JStr ''OK'' then
            (case getitem values ''result'' of
               Inl (KeyError k) \<Rightarrow> Inl (ValueError [JStr ''Missed required field'', JStr k])
             | Inl e \<Rightarrow> Inl e
             | Inr result \<Rightarrow> Inr result)
          else
            (case getitem values ''comment'' of
               Inl (KeyError k) \<Rightarrow> Inl (ValueError [JStr ''Missed required field'', JStr k])
             | Inl e \<Rightarrow> Inl e
             | Inr comment \<Rightarrow> Inl (ValueError [comment])))"

definition check_json :: "'o env \<Rightarrow> string \<Rightarrow> pyerror + json" where
  "check_json env answer = and_then (json_loads env answer) check_values"

text \<open>
  The state a call can touch: the retriever that the client holds
  (\<^verbatim>\<open>CodeforcesAPI._data_retriever\<close>) and the network, recorded as the list of the URLs
  opened so far, oldest first. Every operation returns the state it leaves behind,
  whether it returns or raises.
\<close>

record world =
  data_retriever :: CodeforcesDataRetriever
  requests :: "string list"

text \<open>\<^verbatim>\<open>__get_data\<close>: one request for \<open>url\<close>, then the check of the body.\<close>

definition get_data_of_url :: "'o env \<Rightarrow> string \<Rightarrow> world \<Rightarrow> (pyerror + json) \<times> world" where
  "get_data_of_url env url w =
     (let w' = w\<lparr>requests := requests w @ [url]\<rparr> in
      case urlopen env url of
        Inl e \<Rightarrow> (Inl e, w')
      | Inr answer \<Rightarrow> (check_json env answer, w'))"

text \<open>\<^verbatim>\<open>get_data\<close>\<close>

definition get_data ::
  "'o env \<Rightarrow> string \<Rightarrow> (string \<times> pyval) list \<Rightarrow> world \<Rightarrow> (pyerror + json) \<times> world" where
  "get_data env method kwargs w =
     (case generate_url (data_retriever w) method kwargs of
        Inl e \<Rightarrow> (Inl e, w)
      | Inr url \<Rightarrow> get_data_of_url env url w)"

section \<open>CodeforcesAPI\<close>

text \<open>\<^verbatim>\<open>CodeforcesAPI.__init__\<close>: a client with a fresh retriever; nothing has been requested.\<close>

definition CodeforcesAPI_init :: "pyval \<Rightarrow> pyerror + world" where
  "CodeforcesAPI_init lang =
     and_then (CodeforcesLanguage_call lang) (\<lambda>l.
     and_then (CodeforcesDataRetriever_init (PLang l)) (\<lambda>r.
       Inr \<lparr>data_retriever = r, requests = []\<rparr>))"

text \<open>
  What a method of the client returns: a list of objects, or a dict from names to
  lists of objects.
\<close>

datatype 'o result = Objects "'o list" | Fields "(string \<times> 'o list) list"

text \<open>\<^verbatim>\<open>list(map(C, data))\<close> for one of the imported classes \<open>C\<close>.\<close>

definition list_map :: "'o env \<Rightarrow> api_class \<Rightarrow> json \<Rightarrow> pyerror + 'o list" where
  "list_map env c data = and_then (py_iter data) (map_err (construct env c))"

text \<open>\<^verbatim>\<open>list(map(C, data[key]))\<close>\<close>

definition list_map_item :: "'o env \<Rightarrow> api_class \<Rightarrow> json \<Rightarrow> string \<Rightarrow> pyerror + 'o list" where
  "list_map_item env c data key = and_then (getitem data key) (list_map env c)"

text \<open>The statements after the call of \<^verbatim>\<open>get_data\<close> run only when it returned.\<close>

definition on_data ::
  "(pyerror + json) \<times> world \<Rightarrow> (json \<Rightarrow> pyerror + 'a) \<Rightarrow> (pyerror + 'a) \<times> world" where
  "on_data res f = (case fst res of Inl e \<Rightarrow> (Inl e, snd res) | Inr data \<Rightarrow> (f data, snd res))"

definition contest_hacks :: "'o env \<Rightarrow> pyval \<Rightarrow> world \<Rightarrow> (pyerror + 'o result) \<times> world" where
  "contest_hacks env contest_id w =
     (if \<not> isinstance_int contest_id then (Inl (AssertionError []), w)
      else on_data (get_data env ''contest.hacks'' [(''contestId'', contest_id)] w)
             (\<lambda>data. and_then (list_map env Hack data) (\<lambda>xs. Inr (Objects xs))))"

definition contest_list :: "'o env \<Rightarrow> pyval \<Rightarrow> world \<Rightarrow> (pyerror + 'o result) \<times> world" where
  "contest_list env gym w =
     on_data (get_data env ''contest.list'' [(''gym'', gym)] w)
       (\<lambda>data. and_then (list_map env Contest data) (\<lambda>xs. Inr (Objects xs)))"

definition contest_standings ::
  "'o env \<Rightarrow> pyval \<Rightarrow> pyval \<Rightarrow> pyval \<Rightarrow> pyval \<Rightarrow> world \<Rightarrow> (pyerror + 'o result) \<times> world" where
  "contest_standings env contest_id from' count handles w =
     (if \<not> isinstance_int contest_id then
        (Inl (AssertionError [''contest_id should be of type int, not '' @ type_repr contest_id]), w)
      else if \<not> isinstance_int from' then
        (Inl (AssertionError [''from_ should be of type int, not '' @ type_repr from']), w)
      else if \<not> (isinstance_int count \<or> count = PNone) then
        (Inl (AssertionError [''count should be of type int, not '' @ type_repr count]), w)
      else if \<not> (isinstance_list handles \<or> handles = PNone) then
        (Inl (AssertionError [''handles should be of type list of str, not '' @ type_repr handles]), w)
      else case py_len handles of
        Inl e \<Rightarrow> (Inl e, w)
      | Inr n \<Rightarrow>
          if \<not> n \<le> 10000 then
            (Inl (AssertionError [''No more than 10000 handles is accepted'']), w)
          else
            on_data (get_data env ''contest.standings''
                       [(''contestId'', contest_id), (''count'', count), (''handles'', handles),
                        (''from'', from')] w)
              (\<lambda>data.
                 and_then (list_map_item env Contest data ''contest'') (\<lambda>cs.
                 and_then (list_map_item env Problem data ''problems'') (\<lambda>ps.
                 and_then (list_map_item env RanklistRow data ''rows'') (\<lambda>rs.
                   Inr (Fields [(''contest'', cs), (''problems'', ps), (''rows'', rs)]))))))"

definition contest_status ::
  "'o env \<Rightarrow> pyval \<Rightarrow> pyval \<Rightarrow> pyval \<Rightarrow> pyval \<Rightarrow> world \<Rightarrow> (pyerror + 'o result) \<times> world" where
  "contest_status env contest_id handle from' count w =
     (if \<not> isinstance_int contest_id then (Inl (AssertionError []), w)
      else if \<not> (isinstance_str handle \<or> handle = PNone) then (Inl (AssertionError []), w)
      else if \<not> isinstance_int from' then (Inl (AssertionError []), w)
      else if \<not> (isinstance_int count \<or> count = PNone) then (Inl (AssertionError []), w)
      else
        on_data (get_data env ''contest.status''
                   [(''contestId'', contest_id), (''handle'', handle), (''count'', count),
                    (''from'', from')] w)
          (\<lambda>data. and_then (list_map env Submission data) (\<lambda>xs. Inr (Objects xs))))"

definition problemset_problems :: "'o env \<Rightarrow> pyval \<Rightarrow> world \<Rightarrow> (pyerror + 'o result) \<times> world" where
  "problemset_problems env tags w =
     on_data (get_data env ''problemset.problems'' [(''tags'', tags)] w)
       (\<lambda>data.
          and_then (list_map_item env Problem data ''problems'') (\<lambda>ps.
          and_then (list_map_item env ProblemStatistics data ''problemStatistics'') (\<lambda>st.
            Inr (Fields [(''problems'', ps), (''problemStatistics'', st)]))))"

definition problemset_recent_status ::
  "'o env \<Rightarrow> pyval \<Rightarrow> world \<Rightarrow> (pyerror + 'o result) \<times> world" where
  "problemset_recent_status env count w =
     (if \<not> isinstance_int count then (Inl (AssertionError []), w)
      else if \<not> (0 < int_value count \<and> int_value count \<le> 1000) then (Inl (AssertionError []), w)
      else
        on_data (get_data env ''problemset.recentStatus'' [(''count'', count)] w)
          (\<lambda>data. and_then (list_map env Submission data) (\<lambda>xs. Inr (Objects xs))))"

definition user_info :: "'o env \<Rightarrow> pyval \<Rightarrow> world \<Rightarrow> (pyerror + 'o result) \<times> world" where
  "user_info env handles w =
     (if \<not> isinstance_list handles then (Inl (AssertionError []), w)
      else
        on_data (get_data env ''user.info'' [(''handles'', handles)] w)
          (\<lambda>data. and_then (list_map env User data) (\<lambda>xs. Inr (Objects xs))))"

definition user_rated_list :: "'o env \<Rightarrow> pyval \<Rightarrow> world \<Rightarrow> (pyerror + 'o result) \<times> world" where
  "user_rated_list env active_only w =
     (if \<not> isinstance_bool active_only then (Inl (AssertionError []), w)
      else
        on_data (get_data env ''user.ratedList'' [(''activeOnly'', active_only)] w)
          (\<lambda>data. and_then (list_map env User data) (\<lambda>xs. Inr (Objects xs))))"

definition user_rating :: "'o env \<Rightarrow> pyval \<Rightarrow> world \<Rightarrow> (pyerror + 'o result) \<times> world" where
  "user_rating env handle w =
     (if \<not> isinstance_str handle then
        (Inl (AssertionError [''Handle should have str type, not '' @ type_repr handle]), w)
      else
        on_data (get_data env ''user.rating'' [(''handle'', handle)] w)
          (\<lambda>data. and_then (list_map env RatingChange data) (\<lambda>xs. Inr (Objects xs))))"

definition user_status ::
  "'o env \<Rightarrow> pyval \<Rightarrow> pyval \<Rightarrow> pyval \<Rightarrow> world \<Rightarrow> (pyerror + 'o result) \<times> world" where
  "user_status env handle from' count w =
     (if \<not> isinstance_str handle then (Inl (AssertionError []), w)
      else if \<not> isinstance_int from' then (Inl (AssertionError []), w)
      else if \<not> (isinstance_int count \<or> count = PNone) then (Inl (AssertionError []), w)
      else
        on_data (get_data env ''user.status''
                   [(''handle'', handle), (''count'', count), (''from'', from')] w)
          (\<lambda>data. and_then (list_map env Submission data) (\<lambda>xs. Inr (Objects xs))))"

section \<open>Examples used to instantiate the theorems\<close>

text \<open>
  An environment whose server answers every request with a body that parses to the
  JSON value \<open>body\<close>, and whose classes record the class and the value they were called
  on.
\<close>

definition example_env :: "json \<Rightarrow> (api_class \<times> json) env" where
  "example_env body =
     \<lparr>urlopen = (\<lambda>url. Inr ''response''),
      json_loads = (\<lambda>text. Inr body),
      construct = (\<lambda>c v. Inr (c, v))\<rparr>"

definition example_world :: world where
  "example_world =
     \<lparr>data_retriever = \<lparr>base_from_language = base_table, language = en\<rparr>, requests = []\<rparr>"


text \<open>A successful answer to \<^verbatim>\<open>contest.standings\<close>, and an empty successful answer.\<close>

definition example_standings :: json where
  "example_standings =
     JDict [(''status'', JStr ''OK''),
            (''result'', JDict
               [(''contest'', JDict [(''id'', JInt 374), (''name'', JStr ''Round 220'')]),
                (''problems'', JList [JDict [(''index'', JStr ''A'')]]),
                (''rows'', JList [])])]"

definition example_empty :: json where
  "example_empty = JDict [(''status'', JStr ''OK''), (''result'', JList [])]"

section \<open>Auxiliary facts\<close>

lemma and_then_Inr [simp]: "and_then (Inr x) f = f x"
  by (simp add: and_then_def)

lemma and_then_Inl [simp]: "and_then (Inl e) f = Inl e"
  by (simp add: and_then_def)

lemma and_then_eq_Inr:
  "and_then r f = Inr y \<longleftrightarrow> (\<exists>x. r = Inr x \<and> f x = Inr y)"
  by (cases r) simp_all

lemma map_err_eq_Inr:
  "map_err f xs = Inr ys \<longleftrightarrow> list_all2 (\<lambda>x y. f x = Inr y) xs ys"
proof (induction xs arbitrary: ys)
  case Nil
  then show ?case by auto
next
  case (Cons x xs)
  show ?case
  proof (cases "f x")
    case (Inl e)
    then show ?thesis by (cases ys) simp_all
  next
    case fx: (Inr y)
    show ?thesis
    proof (cases "map_err f xs")
      case (Inl e)
      with fx Cons.IH [of "tl ys"] show ?thesis by (cases ys) auto
    next
      case (Inr zs)
      with fx Cons.IH [of zs] Cons.IH [of "tl ys"] show ?thesis by (cases ys) auto
    qed
  qed
qed

lemma map_err_str_item: "map_err str_item (map PStr ss) = Inr ss"
  by (induction ss) simp_all

lemma py_join_strings: "py_join sep (map PStr ss) = Inr (join sep ss)"
  by (simp add: py_join_def map_err_str_item)

text \<open>The separator stands between consecutive elements, and nowhere else.\<close>

lemma join_Cons: "join sep (x # xs) = x @ concat (map (\<lambda>y. sep @ y) xs)"
  by (induction xs arbitrary: x) simp_all

lemma str_int_374: "str_int 374 = ''374''"
  by (simp add: str_int_def str_nat.simps digit_def)

lemma str_int_1: "str_int 1 = ''1''"
  by (simp add: str_int_def str_nat.simps digit_def)

text \<open>The example state is the one that \<^verbatim>\<open>CodeforcesAPI()\<close>, with the default \<^verbatim>\<open>'en'\<close>, starts in.\<close>

lemma example_world_constructed: "CodeforcesAPI_init (PStr ''en'') = Inr example_world"
  by (simp add: CodeforcesAPI_init_def example_world_def)






lemma on_data_snd: "snd (on_data res f) = snd res"
  by (simp add: on_data_def split: sum.splits)

lemma get_data_of_url_snd:
  "snd (get_data_of_url env url w) = w\<lparr>requests := requests w @ [url]\<rparr>"
  by (simp add: get_data_of_url_def Let_def split: sum.splits)

text \<open>\<^verbatim>\<open>get_data\<close> opens the generated URL, once, and touches nothing else.\<close>

lemma get_data_snd:
  "snd (get_data env method kwargs w) =
     (case generate_url (data_retriever w) method kwargs of
        Inl e \<Rightarrow> w
      | Inr url \<Rightarrow> w\<lparr>requests := requests w @ [url]\<rparr>)"
  by (simp add: get_data_def get_data_of_url_snd split: sum.splits)

lemma get_data_retriever:
  "data_retriever (snd (get_data env method kwargs w)) = data_retriever w"
  by (simp add: get_data_snd split: sum.splits)

lemma list_map_eq_Inr:
  "list_map env c data = Inr objs \<longleftrightarrow>
     (\<exists>xs. py_iter data = Inr xs \<and> list_all2 (\<lambda>x obj. construct env c x = Inr obj) xs objs)"
  by (simp add: list_map_def and_then_eq_Inr map_err_eq_Inr)

text \<open>
  \<^verbatim>\<open>user_info\<close> on a list of strings of any length: the request is made whenever the
  retriever has a base URL.
\<close>

lemma user_info_strings:
  "snd (user_info env (PList (map PStr ss)) w) =
     (case base (data_retriever w) of
        Inl e \<Rightarrow> w
      | Inr b \<Rightarrow> w\<lparr>requests := requests w @ [b @ ''user.info?handles='' @ join '';'' ss]\<rparr>)"
  by (simp add: user_info_def on_data_snd get_data_snd generate_url_def get_valid_args_def
      py_join_strings split: sum.splits)

lemma user_info_strings_result:
  assumes "base (data_retriever w) = Inr b"
    and "urlopen env (b @ ''user.info?handles='' @ join '';'' ss) = Inr answer"
  shows "fst (user_info env (PList (map PStr ss)) w) =
           and_then (check_json env answer)
             (\<lambda>data. and_then (list_map env User data) (\<lambda>xs. Inr (Objects xs)))"
  using assms
  by (simp add: user_info_def on_data_def get_data_def get_data_of_url_def Let_def
      generate_url_def get_valid_args_def py_join_strings and_then_def split: sum.splits)

section \<open>The envelope check\<close>

text \<open>
  C1. When the body parses to a dict whose \<^verbatim>\<open>status\<close> is the string \<^verbatim>\<open>OK\<close> and whose
  \<^verbatim>\<open>result\<close> is \<open>X\<close>, \<^verbatim>\<open>__check_json\<close> returns \<open>X\<close> itself, and so does \<^verbatim>\<open>__get_data\<close> for a
  request answered with that body: \<open>X\<close> is what the methods of the client go on to map.
\<close>

theorem check_json_ok_returns_result:
  assumes loads: "json_loads env answer = Inr (JDict d)"
    and status: "map_of d ''status'' = Some (JStr ''OK'')"
    and result: "map_of d ''result'' = Some X"
  shows "check_json env answer = Inr X \<and>
         (urlopen env url = Inr answer \<longrightarrow>
            get_data_of_url env url w = (Inr X, w\<lparr>requests := requests w @ [url]\<rparr>))"
proof -
  have c: "check_json env answer = Inr X"
    using loads status result by (simp add: check_json_def check_values_def)
  then show ?thesis
    by (simp add: get_data_of_url_def Let_def)
qed

theorem check_json_ok_returns_result_witness:
  "json_loads (example_env (JDict [(''status'', JStr ''OK''), (''result'', JList [JInt 7])]))
     ''response'' = Inr (JDict [(''status'', JStr ''OK''), (''result'', JList [JInt 7])]) \<and>
   map_of [(''status'', JStr ''OK''), (''result'', JList [JInt 7])] ''status'' = Some (JStr ''OK'') \<and>
   map_of [(''status'', JStr ''OK''), (''result'', JList [JInt 7])] ''result'' = Some (JList [JInt 7]) \<and>
   urlopen (example_env (JDict [(''status'', JStr ''OK''), (''result'', JList [JInt 7])]))
     ''http://codeforces.com/api/contest.list'' = Inr ''response'' \<and>
   check_json (example_env (JDict [(''status'', JStr ''OK''), (''result'', JList [JInt 7])]))
     ''response'' = Inr (JList [JInt 7]) \<and>
   get_data_of_url (example_env (JDict [(''status'', JStr ''OK''), (''result'', JList [JInt 7])]))
     ''http://codeforces.com/api/contest.list'' example_world =
     (Inr (JList [JInt 7]),
      example_world\<lparr>requests := requests example_world @ [''http://codeforces.com/api/contest.list'']\<rparr>)"
proof -
  let ?d = "[(''status'', JStr ''OK''), (''result'', JList [JInt 7])]"
  let ?env = "example_env (JDict ?d)"
  have h1: "json_loads ?env ''response'' = Inr (JDict ?d)"
    by (simp add: example_env_def)
  have h2: "map_of ?d ''status'' = Some (JStr ''OK'')"
    by simp
  have h3: "map_of ?d ''result'' = Some (JList [JInt 7])"
    by simp
  have h4: "urlopen ?env ''http://codeforces.com/api/contest.list'' = Inr ''response''"
    by (simp add: example_env_def)
  from check_json_ok_returns_result [OF h1 h2 h3,
      of "''http://codeforces.com/api/contest.list''" example_world] h1 h2 h3 h4
  show ?thesis by simp
qed

text \<open>
  C2. When the body parses to a dict whose \<^verbatim>\<open>status\<close> is anything but the string \<^verbatim>\<open>OK\<close>
  and whose \<^verbatim>\<open>comment\<close> is \<open>c\<close>, \<^verbatim>\<open>__check_json\<close> raises a \<^verbatim>\<open>ValueError\<close> whose only
  argument is \<open>c\<close>.
\<close>

theorem check_json_failed_raises_comment:
  assumes loads: "json_loads env answer = Inr (JDict d)"
    and status: "map_of d ''status'' = Some s" "s \<noteq> JStr ''OK''"
    and comment: "map_of d ''comment'' = Some c"
  shows "check_json env answer = Inl (ValueError [c])"
  using assms by (simp add: check_json_def check_values_def)

theorem check_json_failed_raises_comment_witness:
  "json_loads (example_env (JDict [(''status'', JStr ''FAILED''),
       (''comment'', JStr ''contestId: Contest with id 0 not found'')])) ''response'' =
     Inr (JDict [(''status'', JStr ''FAILED''),
       (''comment'', JStr ''contestId: Contest with id 0 not found'')]) \<and>
   map_of [(''status'', JStr ''FAILED''),
       (''comment'', JStr ''contestId: Contest with id 0 not found'')] ''status'' =
     Some (JStr ''FAILED'') \<and>
   JStr ''FAILED'' \<noteq> JStr ''OK'' \<and>
   map_of [(''status'', JStr ''FAILED''),
       (''comment'', JStr ''contestId: Contest with id 0 not found'')] ''comment'' =
     Some (JStr ''contestId: Contest with id 0 not found'') \<and>
   check_json (example_env (JDict [(''status'', JStr ''FAILED''),
       (''comment'', JStr ''contestId: Contest with id 0 not found'')])) ''response'' =
     Inl (ValueError [JStr ''contestId: Contest with id 0 not found''])"
proof -
  let ?d = "[(''status'', JStr ''FAILED''),
             (''comment'', JStr ''contestId: Contest with id 0 not found'')]"
  have h1: "json_loads (example_env (JDict ?d)) ''response'' = Inr (JDict ?d)"
    by (simp add: example_env_def)
  have h2: "map_of ?d ''status'' = Some (JStr ''FAILED'')"
    by simp
  have h3: "JStr ''FAILED'' \<noteq> JStr ''OK''"
    by simp
  have h4: "map_of ?d ''comment'' = Some (JStr ''contestId: Contest with id 0 not found'')"
    by simp
  from check_json_failed_raises_comment [OF h1 h2 h3 h4] h1 h2 h3 h4
  show ?thesis by simp
qed

text \<open>
  C3. When the body parses to a dict that lacks \<^verbatim>\<open>status\<close>, or lacks \<^verbatim>\<open>comment\<close> while
  its \<^verbatim>\<open>status\<close> is not \<^verbatim>\<open>OK\<close>, or lacks \<^verbatim>\<open>result\<close> while its \<^verbatim>\<open>status\<close> is \<^verbatim>\<open>OK\<close>,
  \<^verbatim>\<open>__check_json\<close> raises a \<^verbatim>\<open>ValueError\<close> with the two arguments
  \<^verbatim>\<open>'Missed required field'\<close> and the name of the missing field. That error differs
  from every error raised for a server-reported failure, which has one argument.
\<close>

theorem check_json_missing_field:
  assumes loads: "json_loads env answer = Inr (JDict d)"
    and missing:
      "(map_of d ''status'' = None \<and> field = ''status'') \<or>
       (\<exists>s. map_of d ''status'' = Some s \<and> s \<noteq> JStr ''OK'' \<and>
            map_of d ''comment'' = None \<and> field = ''comment'') \<or>
       (map_of d ''status'' = Some (JStr ''OK'') \<and> map_of d ''result'' = None \<and>
            field = ''result'')"
  shows "check_json env answer = Inl (ValueError [JStr ''Missed required field'', JStr field]) \<and>
         (\<forall>c. check_json env answer \<noteq> Inl (ValueError [c]))"
  using assms by (auto simp add: check_json_def check_values_def)

theorem check_json_missing_field_witness:
  "check_json (example_env (JDict [(''result'', JList [])])) ''response'' =
     Inl (ValueError [JStr ''Missed required field'', JStr ''status'']) \<and>
   check_json (example_env (JDict [(''status'', JStr ''FAILED'')])) ''response'' =
     Inl (ValueError [JStr ''Missed required field'', JStr ''comment'']) \<and>
   check_json (example_env (JDict [(''status'', JStr ''OK''), (''comment'', JStr ''c'')]))
       ''response'' =
     Inl (ValueError [JStr ''Missed required field'', JStr ''result''])"
proof -
  let ?d1 = "[(''result'', JList [])]"
  let ?d2 = "[(''status'', JStr ''FAILED'')]"
  let ?d3 = "[(''status'', JStr ''OK''), (''comment'', JStr ''c'')]"
  have l1: "json_loads (example_env (JDict ?d1)) ''response'' = Inr (JDict ?d1)"
    and l2: "json_loads (example_env (JDict ?d2)) ''response'' = Inr (JDict ?d2)"
    and l3: "json_loads (example_env (JDict ?d3)) ''response'' = Inr (JDict ?d3)"
    by (simp_all add: example_env_def)
  have m1: "(map_of ?d1 ''status'' = None \<and> ''status'' = ''status'') \<or>
       (\<exists>s. map_of ?d1 ''status'' = Some s \<and> s \<noteq> JStr ''OK'' \<and>
            map_of ?d1 ''comment'' = None \<and> ''status'' = ''comment'') \<or>
       (map_of ?d1 ''status'' = Some (JStr ''OK'') \<and> map_of ?d1 ''result'' = None \<and>
            ''status'' = ''result'')"
    by simp
  have m2: "(map_of ?d2 ''status'' = None \<and> ''comment'' = ''status'') \<or>
       (\<exists>s. map_of ?d2 ''status'' = Some s \<and> s \<noteq> JStr ''OK'' \<and>
            map_of ?d2 ''comment'' = None \<and> ''comment'' = ''comment'') \<or>
       (map_of ?d2 ''status'' = Some (JStr ''OK'') \<and> map_of ?d2 ''result'' = None \<and>
            ''comment'' = ''result'')"
    by simp
  have m3: "(map_of ?d3 ''status'' = None \<and> ''result'' = ''status'') \<or>
       (\<exists>s. map_of ?d3 ''status'' = Some s \<and> s \<noteq> JStr ''OK'' \<and>
            map_of ?d3 ''comment'' = None \<and> ''result'' = ''comment'') \<or>
       (map_of ?d3 ''status'' = Some (JStr ''OK'') \<and> map_of ?d3 ''result'' = None \<and>
            ''result'' = ''result'')"
    by simp
  from check_json_missing_field [OF l1 m1] check_json_missing_field [OF l2 m2]
    check_json_missing_field [OF l3 m3]
  show ?thesis by simp
qed

section \<open>URL generation\<close>



text \<open>
  C5. A parameter whose value is a list of strings is written as its key, \<^verbatim>\<open>=\<close>, and the
  elements joined with \<^verbatim>\<open>;\<close>; a string is written as it is, an integer in decimal, a
  boolean as \<^verbatim>\<open>True\<close> or \<^verbatim>\<open>False\<close>, a member of the enumeration by its qualified name.
\<close>

theorem key_value_to_http_parameter_serialization:
  "key_value_to_http_parameter (key, PList (map PStr ss)) = Inr (key @ ''='' @ join '';'' ss) \<and>
   key_value_to_http_parameter (key, PStr s) = Inr (key @ ''='' @ s) \<and>
   key_value_to_http_parameter (key, PInt i) = Inr (key @ ''='' @ str_int i) \<and>
   key_value_to_http_parameter (key, PBool b) =
     Inr (key @ ''='' @ (if b then ''True'' else ''False'')) \<and>
   key_value_to_http_parameter (key, PLang l) = Inr (key @ ''='' @ lang_str l)"
  by (simp add: py_join_strings)

theorem key_value_to_http_parameter_serialization_witness:
  "key_value_to_http_parameter (''handles'', PList [PStr ''tourist'', PStr ''Petr'']) =
     Inr ''handles=tourist;Petr'' \<and>
   key_value_to_http_parameter (''handle'', PStr ''tourist'') = Inr ''handle=tourist'' \<and>
   key_value_to_http_parameter (''contestId'', PInt 374) = Inr ''contestId=374'' \<and>
   key_value_to_http_parameter (''gym'', PBool False) = Inr ''gym=False''"
  using key_value_to_http_parameter_serialization
    [of "''handles''" "[''tourist'', ''Petr'']" "''tourist''" 374 False en]
    key_value_to_http_parameter_serialization [of "''handle''" "[]" "''tourist''" 0 False en]
    key_value_to_http_parameter_serialization [of "''contestId''" "[]" "[]" 374 False en]
    key_value_to_http_parameter_serialization [of "''gym''" "[]" "[]" 0 False en]
  by (simp add: str_int_374)

section \<open>Validation in the client\<close>

text \<open>
  C6. \<^verbatim>\<open>contest_standings\<close> with an integer contest id and more than 10000 handles
  raises an \<^verbatim>\<open>AssertionError\<close> and leaves the state as it was, so no URL has been
  opened; when \<^verbatim>\<open>from_\<close> and \<^verbatim>\<open>count\<close> pass their own assertions, the error is the one
  about the number of handles.
\<close>

theorem contest_standings_too_many_handles:
  assumes cid: "isinstance_int contest_id" and many: "10000 < length hs"
  shows "\<exists>args. contest_standings env contest_id from' count (PList hs) w =
                  (Inl (AssertionError args), w) \<and>
           (isinstance_int from' \<and> (isinstance_int count \<or> count = PNone) \<longrightarrow>
              args = [''No more than 10000 handles is accepted''])"
  using assms by (simp add: contest_standings_def)

theorem contest_standings_too_many_handles_witness:
  "isinstance_int (PInt 374) \<and> 10000 < length (replicate 10001 (PStr ''a'')) \<and>
   isinstance_int (PInt 1) \<and>
   contest_standings (example_env example_standings) (PInt 374) (PInt 1) PNone
       (PList (replicate 10001 (PStr ''a''))) example_world =
     (Inl (AssertionError [''No more than 10000 handles is accepted'']), example_world)"
proof -
  have h1: "isinstance_int (PInt 374)" by simp
  have h2: "10000 < length (replicate 10001 (PStr ''a''))" by simp
  from contest_standings_too_many_handles
    [OF h1 h2, of "example_env example_standings" "PInt 1" PNone example_world] h1 h2
  show ?thesis by auto
qed

text \<open>
  C7. \<^verbatim>\<open>contest_standings(374)\<close>, with \<^verbatim>\<open>from_\<close>, \<^verbatim>\<open>count\<close> and \<^verbatim>\<open>handles\<close> at their
  defaults 1, \<^verbatim>\<open>None\<close> and \<^verbatim>\<open>None\<close>: the assertion on the type of \<^verbatim>\<open>handles\<close> admits
  \<^verbatim>\<open>None\<close>, and the next line takes \<^verbatim>\<open>len(handles)\<close>, which raises a \<^verbatim>\<open>TypeError\<close>. No
  URL is generated and none is opened.
\<close>

theorem contest_standings_handles_None_raises:
  "contest_standings env (PInt 374) (PInt 1) PNone PNone w = (Inl TypeError, w)"
  by (simp add: contest_standings_def)

text \<open>
  C8. \<^verbatim>\<open>user_info\<close> with 10001 handles: the only assertion is on the type of the
  argument, so the URL with all 10001 handles is opened, and the call returns what
  the server's answer maps to.
\<close>

theorem user_info_many_handles_requests:
  "user_info (example_env example_empty) (PList (replicate 10001 (PStr ''a''))) example_world =
     (Inr (Objects []),
      example_world\<lparr>requests :=
        [''http://codeforces.com/api/user.info?handles='' @ join '';'' (replicate 10001 ''a'')]\<rparr>)"
proof -
  let ?call = "user_info (example_env example_empty) (PList (map PStr (replicate 10001 ''a'')))
                 example_world"
  have b: "base (data_retriever example_world) = Inr ''http://codeforces.com/api/''"
    by (simp add: base_def base_table_def example_world_def)
  have opened: "urlopen (example_env example_empty)
      (''http://codeforces.com/api/'' @ ''user.info?handles='' @ join '';'' (replicate 10001 ''a'')) =
      Inr ''response''"
    by (simp add: example_env_def)
  have state: "snd ?call = example_world\<lparr>requests :=
        [''http://codeforces.com/api/user.info?handles='' @ join '';'' (replicate 10001 ''a'')]\<rparr>"
    by (simp only: user_info_strings) (simp add: base_def base_table_def example_world_def)
  have "fst ?call =
      and_then (check_json (example_env example_empty) ''response'')
        (\<lambda>data. and_then (list_map (example_env example_empty) User data)
           (\<lambda>xs. Inr (Objects xs)))"
    using b opened by (rule user_info_strings_result)
  then have "fst ?call = Inr (Objects [])"
    by (simp add: example_env_def example_empty_def check_json_def check_values_def list_map_def)
  with state have "?call = (Inr (Objects []), example_world\<lparr>requests :=
        [''http://codeforces.com/api/user.info?handles='' @ join '';'' (replicate 10001 ''a'')]\<rparr>)"
    by (simp add: prod_eq_iff)
  then show ?thesis by simp
qed

section \<open>The state of the client\<close>

text \<open>
  C9, as the claim states it, fails: the setter of the property \<^verbatim>\<open>language\<close> replaces
  the language of a retriever that was constructed with another one.
\<close>

theorem language_setter_changes_language:
  "CodeforcesDataRetriever_init (PLang en) =
     Inr \<lparr>base_from_language = base_table, language = en\<rparr> \<and>
   language_setter (PStr ''ru'') \<lparr>base_from_language = base_table, language = en\<rparr> =
     (Inr (), \<lparr>base_from_language = base_table, language = ru\<rparr>) \<and>
   language \<lparr>base_from_language = base_table, language = ru\<rparr> \<noteq>
   language \<lparr>base_from_language = base_table, language = en\<rparr>"
  by (simp add: language_setter_def)

text \<open>
  C9, amended. \<^verbatim>\<open>get_data\<close> and the ten methods of the client leave the retriever, its
  language and its table of base URLs, as it was. The setter of \<^verbatim>\<open>language\<close> never
  changes the table. Given a member of the enumeration, or the string \<^verbatim>\<open>'en'\<close> or
  \<^verbatim>\<open>'ru'\<close>, it returns with the language replaced by that member; given any other
  string it raises the \<^verbatim>\<open>ValueError\<close> of the enumeration's lookup, given a value that
  is neither a member nor a string it raises an \<^verbatim>\<open>AssertionError\<close>, and in both cases
  the retriever is as it was.
\<close>

theorem retriever_changed_only_by_setter:
  "data_retriever (snd (get_data env method kwargs w)) = data_retriever w \<and>
   data_retriever (snd (contest_hacks env contest_id w)) = data_retriever w \<and>
   data_retriever (snd (contest_list env gym w)) = data_retriever w \<and>
   data_retriever (snd (contest_standings env contest_id from' count handles w)) =
     data_retriever w \<and>
   data_retriever (snd (contest_status env contest_id handle from' count w)) =
     data_retriever w \<and>
   data_retriever (snd (problemset_problems env tags w)) = data_retriever w \<and>
   data_retriever (snd (problemset_recent_status env count w)) = data_retriever w \<and>
   data_retriever (snd (user_info env handles w)) = data_retriever w \<and>
   data_retriever (snd (user_rated_list env active_only w)) = data_retriever w \<and>
   data_retriever (snd (user_rating env handle w)) = data_retriever w \<and>
   data_retriever (snd (user_status env handle from' count w)) = data_retriever w \<and>
   base_from_language (snd (language_setter v r)) = base_from_language r \<and>
   (snd (language_setter v r) = r \<or>
    (\<exists>l. CodeforcesLanguage_call v = Inr l \<and>
         language_setter v r = (Inr (), r\<lparr>language := l\<rparr>))) \<and>
   language_setter (PLang l) r = (Inr (), r\<lparr>language := l\<rparr>) \<and>
   language_setter (PStr ''en'') r = (Inr (), r\<lparr>language := en\<rparr>) \<and>
   language_setter (PStr ''ru'') r = (Inr (), r\<lparr>language := ru\<rparr>) \<and>
   language_setter (PStr s) r =
     (if s = ''en'' then (Inr (), r\<lparr>language := en\<rparr>)
      else if s = ''ru'' then (Inr (), r\<lparr>language := ru\<rparr>)
      else (Inl (InvalidEnumValue (PStr s)), r)) \<and>
   language_setter PNone r = (Inl (AssertionError []), r) \<and>
   language_setter (PBool b) r = (Inl (AssertionError []), r) \<and>
   language_setter (PInt i) r = (Inl (AssertionError []), r) \<and>
   language_setter (PList xs) r = (Inl (AssertionError []), r)"
proof -
  have standings:
    "data_retriever (snd (contest_standings env contest_id from' count handles w)) =
       data_retriever w"
    by (simp add: contest_standings_def on_data_snd get_data_retriever split: sum.splits)
  have methods:
    "data_retriever (snd (get_data env method kwargs w)) = data_retriever w \<and>
     data_retriever (snd (contest_hacks env contest_id w)) = data_retriever w \<and>
     data_retriever (snd (contest_list env gym w)) = data_retriever w \<and>
     data_retriever (snd (contest_status env contest_id handle from' count w)) =
       data_retriever w \<and>
     data_retriever (snd (problemset_problems env tags w)) = data_retriever w \<and>
     data_retriever (snd (problemset_recent_status env count w)) = data_retriever w \<and>
     data_retriever (snd (user_info env handles w)) = data_retriever w \<and>
     data_retriever (snd (user_rated_list env active_only w)) = data_retriever w \<and>
     data_retriever (snd (user_rating env handle w)) = data_retriever w \<and>
     data_retriever (snd (user_status env handle from' count w)) = data_retriever w"
    by (simp add: get_data_retriever on_data_snd contest_hacks_def
        contest_list_def contest_status_def problemset_problems_def
        problemset_recent_status_def user_info_def user_rated_list_def user_rating_def
        user_status_def)
  have table: "base_from_language (snd (language_setter v r)) = base_from_language r"
    by (simp add: language_setter_def split: sum.splits)
  have setter: "snd (language_setter v r) = r \<or>
    (\<exists>l. CodeforcesLanguage_call v = Inr l \<and>
         language_setter v r = (Inr (), r\<lparr>language := l\<rparr>))"
    by (simp add: language_setter_def split: sum.splits)
  have member: "language_setter (PLang l) r = (Inr (), r\<lparr>language := l\<rparr>)"
    by (simp add: language_setter_def)
  have string: "language_setter (PStr s) r =
     (if s = ''en'' then (Inr (), r\<lparr>language := en\<rparr>)
      else if s = ''ru'' then (Inr (), r\<lparr>language := ru\<rparr>)
      else (Inl (InvalidEnumValue (PStr s)), r))"
    by (simp add: language_setter_def)
  have english: "language_setter (PStr ''en'') r = (Inr (), r\<lparr>language := en\<rparr>)"
    by (simp add: language_setter_def)
  have russian: "language_setter (PStr ''ru'') r = (Inr (), r\<lparr>language := ru\<rparr>)"
    by (simp add: language_setter_def)
  have others:
    "language_setter PNone r = (Inl (AssertionError []), r) \<and>
     language_setter (PBool b) r = (Inl (AssertionError []), r) \<and>
     language_setter (PInt i) r = (Inl (AssertionError []), r) \<and>
     language_setter (PList xs) r = (Inl (AssertionError []), r)"
    by (simp add: language_setter_def)
  from methods standings table setter member string english russian others
  show ?thesis by blast
qed

theorem retriever_changed_only_by_setter_witness:
  "language_setter (PLang ru) \<lparr>base_from_language = base_table, language = en\<rparr> =
     (Inr (), \<lparr>base_from_language = base_table, language = ru\<rparr>) \<and>
   language_setter (PStr ''ru'') \<lparr>base_from_language = base_table, language = en\<rparr> =
     (Inr (), \<lparr>base_from_language = base_table, language = ru\<rparr>) \<and>
   language_setter (PStr ''de'') \<lparr>base_from_language = base_table, language = en\<rparr> =
     (Inl (InvalidEnumValue (PStr ''de'')),
      \<lparr>base_from_language = base_table, language = en\<rparr>) \<and>
   language_setter (PInt 7) \<lparr>base_from_language = base_table, language = en\<rparr> =
     (Inl (AssertionError []), \<lparr>base_from_language = base_table, language = en\<rparr>) \<and>
   data_retriever (snd (user_rating (example_env example_empty) (PStr ''tourist'')
     example_world)) = data_retriever example_world"
  using retriever_changed_only_by_setter
    [where env = "example_env example_empty" and w = example_world
       and handle = "PStr ''tourist''" and v = "PStr ''de''"
       and r = "\<lparr>base_from_language = base_table, language = en\<rparr>"
       and l = ru and s = "''de''" and i = 7]
  by simp

section \<open>The result of \<^verbatim>\<open>contest_standings\<close>\<close>

text \<open>
  C10. When \<^verbatim>\<open>contest_standings\<close> returns, and the data it received holds a dict under
  \<^verbatim>\<open>contest\<close> and lists under \<^verbatim>\<open>problems\<close> and \<^verbatim>\<open>rows\<close>, the result has the three
  entries \<^verbatim>\<open>contest\<close>, \<^verbatim>\<open>problems\<close> and \<^verbatim>\<open>rows\<close>. The entry \<^verbatim>\<open>contest\<close> is a list with
  one object per key of the contest dict, each made by calling \<^verbatim>\<open>Contest\<close> on that key;
  the other two are made by calling \<^verbatim>\<open>Problem\<close> and \<^verbatim>\<open>RanklistRow\<close> on each element of
  their lists.
\<close>

theorem contest_standings_result:
  assumes call: "contest_standings env contest_id from' count handles w = (Inr res, w')"
    and data: "fst (get_data env ''contest.standings''
                 [(''contestId'', contest_id), (''count'', count), (''handles'', handles),
                  (''from'', from')] w) = Inr (JDict data)"
    and contest: "map_of data ''contest'' = Some (JDict c)"
    and problems: "map_of data ''problems'' = Some (JList ps)"
    and rows: "map_of data ''rows'' = Some (JList rs)"
  shows "\<exists>cs ps' rs'.
           res = Fields [(''contest'', cs), (''problems'', ps'), (''rows'', rs')] \<and>
           list_all2 (\<lambda>k obj. construct env Contest (JStr k) = Inr obj) (map fst c) cs \<and>
           list_all2 (\<lambda>v obj. construct env Problem v = Inr obj) ps ps' \<and>
           list_all2 (\<lambda>v obj. construct env RanklistRow v = Inr obj) rs rs'"
proof -
  let ?get = "get_data env ''contest.standings''
                 [(''contestId'', contest_id), (''count'', count), (''handles'', handles),
                  (''from'', from')] w"
  let ?f = "\<lambda>data.
                 and_then (list_map_item env Contest data ''contest'') (\<lambda>cs.
                 and_then (list_map_item env Problem data ''problems'') (\<lambda>ps.
                 and_then (list_map_item env RanklistRow data ''rows'') (\<lambda>rs.
                   Inr (Fields [(''contest'', cs), (''problems'', ps), (''rows'', rs)]))))"
  from call have "fst (on_data ?get ?f) = Inr res"
    by (auto simp add: contest_standings_def split: if_splits sum.splits)
  with data have "?f (JDict data) = Inr res"
    by (simp add: on_data_def)
  then obtain cs ps' rs' where
    cs: "list_map env Contest (JDict c) = Inr cs" and
    ps': "list_map env Problem (JList ps) = Inr ps'" and
    rs': "list_map env RanklistRow (JList rs) = Inr rs'" and
    res: "res = Fields [(''contest'', cs), (''problems'', ps'), (''rows'', rs')]"
    using contest problems rows
    by (auto simp add: and_then_eq_Inr list_map_item_def)
  from cs have "list_all2 (\<lambda>k obj. construct env Contest (JStr k) = Inr obj) (map fst c) cs"
    by (simp add: list_map_eq_Inr list_all2_map1)
  moreover from ps' have "list_all2 (\<lambda>v obj. construct env Problem v = Inr obj) ps ps'"
    by (simp add: list_map_eq_Inr)
  moreover from rs' have "list_all2 (\<lambda>v obj. construct env RanklistRow v = Inr obj) rs rs'"
    by (simp add: list_map_eq_Inr)
  ultimately show ?thesis using res by blast
qed

theorem contest_standings_result_witness:
  "contest_standings (example_env example_standings) (PInt 374) (PInt 1) PNone
       (PList [PStr ''tourist'']) example_world =
     (Inr (Fields [(''contest'', [(Contest, JStr ''id''), (Contest, JStr ''name'')]),
                   (''problems'', [(Problem, JDict [(''index'', JStr ''A'')])]),
                   (''rows'', [])]),
      example_world\<lparr>requests :=
        [''http://codeforces.com/api/contest.standings?contestId=374&handles=tourist&from=1'']\<rparr>) \<and>
   (\<exists>cs ps' rs'.
      Fields [(''contest'', [(Contest, JStr ''id''), (Contest, JStr ''name'')]),
              (''problems'', [(Problem, JDict [(''index'', JStr ''A'')])]),
              (''rows'', [])] =
        Fields [(''contest'', cs), (''problems'', ps'), (''rows'', rs')] \<and>
      list_all2 (\<lambda>k obj. construct (example_env example_standings) Contest (JStr k) = Inr obj)
        (map fst [(''id'', JInt 374), (''name'', JStr ''Round 220'')]) cs \<and>
      list_all2 (\<lambda>v obj. construct (example_env example_standings) Problem v = Inr obj)
        [JDict [(''index'', JStr ''A'')]] ps' \<and>
      list_all2 (\<lambda>v obj. construct (example_env example_standings) RanklistRow v = Inr obj)
        [] rs')"
proof -
  let ?data = "[(''contest'', JDict [(''id'', JInt 374), (''name'', JStr ''Round 220'')]),
                (''problems'', JList [JDict [(''index'', JStr ''A'')]]),
                (''rows'', JList [])]"
  have h1: "contest_standings (example_env example_standings) (PInt 374) (PInt 1) PNone
       (PList [PStr ''tourist'']) example_world =
     (Inr (Fields [(''contest'', [(Contest, JStr ''id''), (Contest, JStr ''name'')]),
                   (''problems'', [(Problem, JDict [(''index'', JStr ''A'')])]),
                   (''rows'', [])]),
      example_world\<lparr>requests :=
        [''http://codeforces.com/api/contest.standings?contestId=374&handles=tourist&from=1'']\<rparr>)"
    by (simp add: contest_standings_def on_data_def get_data_def get_data_of_url_def
        generate_url_def get_valid_args_def base_def base_table_def example_world_def
        example_env_def example_standings_def check_json_def check_values_def
        list_map_item_def list_map_def py_join_def str_int_374 str_int_1)
  have h2: "fst (get_data (example_env example_standings) ''contest.standings''
                 [(''contestId'', PInt 374), (''count'', PNone),
                  (''handles'', PList [PStr ''tourist'']), (''from'', PInt 1)] example_world) =
            Inr (JDict ?data)"
    by (simp add: get_data_def get_data_of_url_def generate_url_def get_valid_args_def base_def
        base_table_def example_world_def example_env_def example_standings_def check_json_def
        check_values_def py_join_def str_int_374 str_int_1)
  have h3: "map_of ?data ''contest'' = Some (JDict [(''id'', JInt 374), (''name'', JStr ''Round 220'')])"
    by simp
  have h4: "map_of ?data ''problems'' = Some (JList [JDict [(''index'', JStr ''A'')]])"
    by simp
  have h5: "map_of ?data ''rows'' = Some (JList [])"
    by simp
  from contest_standings_result [OF h1 h2 h3 h4 h5] h1
  show ?thesis by blast
qed

end
